theory Spec2Isabelle
  imports Complex_Main "HOL-Library.Word" "HOL-Library.AList"
begin

section \<open>Values, store operations and exceptions\<close>

text \<open>
  The module \<^verbatim>\<open>nx/common/workers.py\<close> passes Python values to a Redis pipeline.
  Timestamps (\<^verbatim>\<open>packet.time\<close>) are only ever copied, never computed with, so they are
  modelled as rationals.
\<close>

type_synonym byte = "8 word"
type_synonym bytes = "byte list"
type_synonym timestamp = rat

datatype pyval = PNone | PStr string | PBytes bytes | PTime timestamp | PInt int

text \<open>
  The pipeline methods the module calls.  A redis-py pipeline only buffers the command,
  so each call appends one operation to the batch and cannot fail.
  \<^verbatim>\<open>hset(key, mapping=d)\<close> and \<^verbatim>\<open>hset(key, field, value)\<close> are both \<open>HSET\<close>, the
  second with a one-entry list.  \<open>EXPIRE\<close> is never issued by this module; it is in the
  vocabulary because a worker's \<^verbatim>\<open>process_packet\<close> may issue it.
\<close>

datatype redis_op =
    HSET string "(pyval \<times> pyval) list"
  | HSETNX string string pyval
  | HINCRBY string string int
  | SADD string pyval
  | EXPIRE string int

text \<open>\<^verbatim>\<open>class RestartWorker(Exception)\<close>, and any other exception, by name.\<close>

datatype exn = RestartWorker | Error string

text \<open>
  A method that mutates \<^verbatim>\<open>self\<close> and may raise is a function from the state to an
  outcome and the new state.  \<open>try_finally\<close> is Python's \<^verbatim>\<open>try: ... finally: ...\<close>:
  the \<^verbatim>\<open>finally\<close> block always runs on the state the body left; when it raises, its
  exception replaces the body's outcome, otherwise the body's outcome stands.
\<close>

type_synonym ('s, 'a) prog = "'s \<Rightarrow> (exn + 'a) \<times> 's"

definition try_finally :: "('s, 'a) prog \<Rightarrow> ('s, unit) prog \<Rightarrow> ('s, 'a) prog" where
  "try_finally body fin s =
     (case body s of (r, s1) \<Rightarrow>
        (case fin s1 of (Inl e, s2) \<Rightarrow> (Inl e, s2) | (Inr _, s2) \<Rightarrow> (r, s2)))"


section \<open>Packets as scapy presents them\<close>

text \<open>
  A scapy packet is a chain of layers.  Only the fields the module reads or writes are
  named: the source MAC of an Ethernet layer, and the identification and header checksum
  of an IPv4 layer; the remaining fields of a layer are carried along as they are.
  \<open>Dot1Q\<close> is an 802.1Q tag, which scapy places between the Ethernet layer and
  the layer the tagged frame carries.
\<close>

record ether_fields =
  dst :: string
  src :: string
  ethertype :: "16 word"

record ip_fields =
  ip_id :: "16 word"
  ip_chksum :: "16 word"
  ip_other :: bytes

datatype layer = Ether ether_fields | Dot1Q bytes | IP ip_fields | ARP bytes | Raw bytes

text \<open>
  \<^verbatim>\<open>packet.original\<close>, \<^verbatim>\<open>packet.time\<close>, \<^verbatim>\<open>packet.sniffed_on\<close> and the dissected layers
  of the captured packet.
\<close>

record packet =
  original :: bytes
  time :: timestamp
  sniffed_on :: string
  layers :: "layer list"

text \<open>\<^verbatim>\<open>pkt.getlayer(cls)\<close> is the first layer of that class, or \<^verbatim>\<open>None\<close>.\<close>

fun getlayer_Ether :: "layer list \<Rightarrow> ether_fields option" where
  "getlayer_Ether [] = None"
| "getlayer_Ether (Ether e # ls) = Some e"
| "getlayer_Ether (l # ls) = getlayer_Ether ls"

fun getlayer_IP :: "layer list \<Rightarrow> ip_fields option" where
  "getlayer_IP [] = None"
| "getlayer_IP (IP f # ls) = Some f"
| "getlayer_IP (l # ls) = getlayer_IP ls"

text \<open>\<^verbatim>\<open>ARP in pkt\<close>.\<close>

fun haslayer_ARP :: "layer list \<Rightarrow> bool" where
  "haslayer_ARP [] = False"
| "haslayer_ARP (ARP a # ls) = True"
| "haslayer_ARP (l # ls) = haslayer_ARP ls"

text \<open>
  \<^verbatim>\<open>ipv4_layer = copy_packet.getlayer(IP)\<close> is a reference into \<^verbatim>\<open>copy_packet\<close>, so an
  assignment to one of its fields changes the first IPv4 layer of \<^verbatim>\<open>copy_packet\<close>.
\<close>

fun update_IP :: "(ip_fields \<Rightarrow> ip_fields) \<Rightarrow> layer list \<Rightarrow> layer list" where
  "update_IP g [] = []"
| "update_IP g (IP f # ls) = IP (g f) # ls"
| "update_IP g (l # ls) = l # update_IP g ls"

text \<open>
  \<^verbatim>\<open>str.lower()\<close> on a MAC address as scapy renders it (hexadecimal digits and colons):
  the ASCII letters are folded, every other character is kept.
\<close>

definition lower_char :: "char \<Rightarrow> char" where
  "lower_char c =
     (case map_of (zip ''ABCDEFGHIJKLMNOPQRSTUVWXYZ'' ''abcdefghijklmnopqrstuvwxyz'') c of
        None \<Rightarrow> c
      | Some l \<Rightarrow> l)"

definition lower :: "string \<Rightarrow> string" where
  "lower s = map lower_char s"


section \<open>The worker and what lies outside the module\<close>

text \<open>
  The attributes of a worker that the module uses: \<^verbatim>\<open>name\<close>; \<^verbatim>\<open>db\<close>, here the list of
  the batches submitted so far (one entry per call of \<^verbatim>\<open>pipeline.execute()\<close>);
  \<^verbatim>\<open>_waiting_to_restart\<close>; \<^verbatim>\<open>_cmd\<close>, which does not exist before \<^verbatim>\<open>Worker.run\<close> assigns
  it; and the lines written to the log.
\<close>

record worker =
  name :: string
  db :: "redis_op list list"
  waiting_to_restart :: bool
  cmd :: "string list option"
  logged :: "string list"

text \<open>The keyword arguments of \<^verbatim>\<open>worker.process_packet\<close>, apart from the pipeline.\<close>

record callback_args =
  arg_packet :: packet
  arg_common_fields :: "(pyval \<times> pyval) list"
  arg_macaddr :: "string option"
  arg_mac_key :: string
  arg_packet_hash :: "string option"
  arg_packet_key :: string

text \<open>
  The calls that leave the module, each of which may raise: scapy's dissection of bytes
  as an Ethernet frame (\<^verbatim>\<open>Ether(packet_bytes)\<close>) and its serialisation
  (\<^verbatim>\<open>bytes(copy_packet)\<close>), \<^verbatim>\<open>hashlib.blake2s(...).hexdigest()\<close>, the abstract method
  \<^verbatim>\<open>process_packet\<close> of the concrete worker, which yields the operations it appended to
  the pipeline and its return value or exception, and the submission of a batch to the
  store.  Every theorem below holds whatever these do.
\<close>

record env =
  Ether_dissect :: "bytes \<Rightarrow> exn + layer list"
  build :: "layer list \<Rightarrow> exn + bytes"
  blake2s_hexdigest :: "bytes \<Rightarrow> exn + string"
  process_packet :: "callback_args \<Rightarrow> redis_op list \<times> (exn + string option)"
  execute :: "redis_op list \<Rightarrow> exn + unit"


section \<open>PacketProcessor\<close>

text \<open>
  The attributes of a \<^verbatim>\<open>PacketProcessor\<close>.  \<^verbatim>\<open>common_fields\<close>, \<^verbatim>\<open>packet_key\<close>,
  \<^verbatim>\<open>mac_key\<close> and \<^verbatim>\<open>pipeline\<close> are created by \<^verbatim>\<open>run\<close> and \<^verbatim>\<open>_run\<close> before anything
  reads them; they start empty here.  The property \<^verbatim>\<open>ether_layer\<close> memoises
  \<^verbatim>\<open>packet.getlayer(Ether)\<close> of a packet the processor never assigns to, so it is a
  function of the packet.
\<close>

record processor =
  worker :: worker
  packet :: packet
  issue_categories :: "string list"
  packet_hash :: "string option"
  src_mac :: "string option"
  common_fields :: "(pyval \<times> pyval) list"
  packet_key :: string
  mac_key :: string
  pipeline :: "redis_op list"

definition PacketProcessor_init :: "worker \<Rightarrow> packet \<Rightarrow> processor" where
  "PacketProcessor_init w pkt =
     \<lparr>worker = w, packet = pkt, issue_categories = [], packet_hash = None, src_mac = None,
      common_fields = [], packet_key = [], mac_key = [], pipeline = []\<rparr>"

definition ether_layer :: "processor \<Rightarrow> ether_fields option" where
  "ether_layer p = getlayer_Ether (layers (packet p))"

definition record_issue :: "string \<Rightarrow> processor \<Rightarrow> processor" where
  "record_issue category p =
     p\<lparr>issue_categories := issue_categories p @ [''unhandled:pkts:'' @ category]\<rparr>"

text \<open>\<^verbatim>\<open>_packet_hash_bytes\<close>.\<close>

definition packet_hash_bytes :: "env \<Rightarrow> (processor, bytes) prog" where
  "packet_hash_bytes E p =
     (let packet_bytes = original (packet p) in
      if ether_layer p = None then (Inr packet_bytes, p)
      else
        (case Ether_dissect E packet_bytes of
           Inl e \<Rightarrow> (Inl e, p)
         | Inr copy_packet \<Rightarrow>
             (case getlayer_IP copy_packet of
                None \<Rightarrow>
                  (Inr packet_bytes,
                   if \<not> haslayer_ARP copy_packet then record_issue ''ether_payload'' p else p)
              | Some ipv4_layer \<Rightarrow>
                  (let c1 = update_IP (\<lambda>f. f\<lparr>ip_id := 0xdead\<rparr>) copy_packet;
                       c2 = update_IP (\<lambda>f. f\<lparr>ip_chksum := 0xbeef\<rparr>) c1
                   in (build E c2, p)))))"

text \<open>\<^verbatim>\<open>_packet_hash\<close> (the attribute \<^verbatim>\<open>packet_hash\<close> has the plain name).\<close>

definition compute_packet_hash :: "env \<Rightarrow> (processor, string) prog" where
  "compute_packet_hash E p =
     (case packet_hash_bytes E p of
        (Inl e, p1) \<Rightarrow> (Inl e, p1)
      | (Inr b, p1) \<Rightarrow> (blake2s_hexdigest E b, p1))"

text \<open>
  \<^verbatim>\<open>_record_raw_packet\<close>.  A dict keeps insertion order and an assignment to a key it
  has replaces the value in place, which is \<open>AList.update\<close>.
\<close>

definition record_raw_packet :: "processor \<Rightarrow> processor" where
  "record_raw_packet p =
     (let fields0 = common_fields p;
          fields1 = AList.update (PStr ''raw_bytes'') (PBytes (original (packet p))) fields0;
          fields2 = AList.update (PStr ''last_sniffed_on'') (PStr (sniffed_on (packet p))) fields1;
          fields = (case src_mac p of
                      None \<Rightarrow> fields2
                    | Some m \<Rightarrow> AList.update (PStr ''last_seen_from'') (PStr m) fields2);
          key = packet_key p
      in p\<lparr>pipeline := pipeline p @
             [HSET key fields,
              HSETNX key ''first_seen'' (PTime (time (packet p))),
              HINCRBY key ''num_sightings'' 1]\<rparr>)"

text \<open>
  \<^verbatim>\<open>None\<close> or a string as a value handed to the pipeline, and as an f-string renders it.
\<close>

definition opt_val :: "string option \<Rightarrow> pyval" where
  "opt_val x = (case x of None \<Rightarrow> PNone | Some s \<Rightarrow> PStr s)"

definition format_opt :: "string option \<Rightarrow> string" where
  "format_opt x = (case x of None \<Rightarrow> ''None'' | Some s \<Rightarrow> s)"

text \<open>\<^verbatim>\<open>_record_device_sighting\<close>.\<close>

definition record_device_sighting :: "processor \<Rightarrow> processor" where
  "record_device_sighting p =
     (let key = mac_key p;
          key2 = ''macpkts_'' @ format_opt (src_mac p)
      in p\<lparr>pipeline := pipeline p @
             [SADD ''macs'' (opt_val (src_mac p)),
              HSET key (common_fields p),
              HSETNX key ''first_seen'' (PTime (time (packet p))),
              HSET key2 [(opt_val (packet_hash p), PTime (time (packet p)))]]\<rparr>)"

text \<open>\<^verbatim>\<open>_run\<close>.\<close>

definition run_body :: "env \<Rightarrow> (processor, string option) prog" where
  "run_body E p0 =
     (let t = time (packet p0);
          nm = name (worker p0);
          p1 = p0\<lparr>common_fields :=
                 AList.update (PStr (''last_seen_by_'' @ nm)) (PTime t)
                   (AList.update (PStr ''last_seen_by'') (PStr nm)
                      (AList.update (PStr ''last_seen'') (PTime t) []))\<rparr>;
          p2 = (if ether_layer p1 = None then record_issue ''first_layer'' p1 else p1)
      in case compute_packet_hash E p2 of
           (Inl e, p3) \<Rightarrow> (Inl e, p3)
         | (Inr h, p3) \<Rightarrow>
             (let p4 = p3\<lparr>packet_hash := Some h, packet_key := ''pkt_'' @ h\<rparr>;
                  p5 = (case ether_layer p4 of
                          None \<Rightarrow> p4
                        | Some eth \<Rightarrow>
                            p4\<lparr>src_mac := Some (lower (src eth)),
                               mac_key := ''mac_'' @ lower (src eth)\<rparr>);
                  p6 = record_raw_packet p5
              in if ether_layer p6 = None then (Inr None, p6)
                 else
                   (let p7 = record_device_sighting p6;
                        (ops, r) = process_packet E
                          \<lparr>arg_packet = packet p7, arg_common_fields = common_fields p7,
                           arg_macaddr = src_mac p7, arg_mac_key = mac_key p7,
                           arg_packet_hash = packet_hash p7, arg_packet_key = packet_key p7\<rparr>
                    in (r, p7\<lparr>pipeline := pipeline p7 @ ops\<rparr>))))"

text \<open>
  The three \<^verbatim>\<open>finally\<close> blocks of \<^verbatim>\<open>run\<close>: the loop over \<^verbatim>\<open>_issue_categories\<close>, the
  heartbeat, and \<^verbatim>\<open>pipeline.execute()\<close>, which hands the batch to the store and raises
  when the store does.
\<close>

fun sadd_issues :: "string list \<Rightarrow> processor \<Rightarrow> processor" where
  "sadd_issues [] p = p"
| "sadd_issues (set_key # sets) p =
     sadd_issues sets (p\<lparr>pipeline := pipeline p @ [SADD set_key (opt_val (packet_hash p))]\<rparr>)"

definition add_issues :: "(processor, unit) prog" where
  "add_issues p = (Inr (), sadd_issues (issue_categories p) p)"

definition add_heartbeat :: "string \<times> timestamp \<Rightarrow> (processor, unit) prog" where
  "add_heartbeat heartbeat p =
     (Inr (), p\<lparr>pipeline := pipeline p @
                  [HSET ''heartbeats'' [(PStr (fst heartbeat), PTime (snd heartbeat))]]\<rparr>)"

definition pipeline_execute :: "env \<Rightarrow> (processor, unit) prog" where
  "pipeline_execute E p =
     (execute E (pipeline p),
      p\<lparr>worker := (worker p)\<lparr>db := db (worker p) @ [pipeline p]\<rparr>\<rparr>)"

text \<open>\<^verbatim>\<open>run\<close>, which returns nothing.\<close>

definition run_discard :: "env \<Rightarrow> (processor, unit) prog" where
  "run_discard E p = (case run_body E p of (r, p1) \<Rightarrow> (map_sum id (\<lambda>_. ()) r, p1))"

definition PacketProcessor_run :: "env \<Rightarrow> (processor, unit) prog" where
  "PacketProcessor_run E p0 =
     (let heartbeat = (name (worker p0), time (packet p0));
          p = p0\<lparr>pipeline := []\<rparr>
      in try_finally
           (try_finally
              (try_finally (run_discard E) add_issues)
              (add_heartbeat heartbeat))
           (pipeline_execute E) p)"


section \<open>Worker and PacketSnifferWorker\<close>

text \<open>\<^verbatim>\<open>_checkpoint_worker\<close> and \<^verbatim>\<open>_handle_SIGHUP\<close>.\<close>

definition checkpoint_worker :: "(worker, unit) prog" where
  "checkpoint_worker w =
     (if \<not> waiting_to_restart w then (Inr (), w)
      else (Inl RestartWorker, w\<lparr>logged := logged w @ [''going down for restart'']\<rparr>))"

definition handle_SIGHUP :: "(worker, unit) prog" where
  "handle_SIGHUP w =
     (case (if waiting_to_restart w
            then checkpoint_worker
                   (w\<lparr>logged := logged w @ [''received second SIGHUP, forcing restart now'']\<rparr>)
            else (Inr (), w)) of
        (Inl e, w1) \<Rightarrow> (Inl e, w1)
      | (Inr u, w1) \<Rightarrow>
          (Inr (),
           w1\<lparr>logged := logged w1 @ [''received SIGHUP, will restart at next checkpoint''],
              waiting_to_restart := True\<rparr>))"

text \<open>
  \<^verbatim>\<open>_process_packet\<close>: a fresh processor on this worker runs, and what it did to the
  worker's \<^verbatim>\<open>db\<close> stays.
\<close>

definition process_packet_method :: "env \<Rightarrow> packet \<Rightarrow> (worker, unit) prog" where
  "process_packet_method E pkt w =
     (case PacketProcessor_run E (PacketProcessor_init w pkt) of (r, p) \<Rightarrow> (r, worker p))"

text \<open>
  \<^verbatim>\<open>_wrapped_process_packet\<close>, around the method \<^verbatim>\<open>self._process_packet(packet)\<close> it
  dispatches to (given as \<open>process\<close>: a subclass may replace it, and a signal handler may
  run while it does).  The bare \<^verbatim>\<open>except:\<close> logs and swallows every exception, after
  which the function returns \<^verbatim>\<open>None\<close>; the \<^verbatim>\<open>finally\<close> block is the checkpoint.
\<close>

definition wrapped_process_packet :: "(worker, 'a) prog \<Rightarrow> (worker, 'a option) prog" where
  "wrapped_process_packet process =
     try_finally
       (\<lambda>w. case process w of
               (Inl e, w1) \<Rightarrow> (Inr None, w1\<lparr>logged := logged w1 @ [''packet processing failed:'']\<rparr>)
             | (Inr v, w1) \<Rightarrow> (Inr (Some v), w1))
       checkpoint_worker"

text \<open>
  scapy's \<^verbatim>\<open>sniff(prn=..., store=False)\<close> blocks and calls \<^verbatim>\<open>prn\<close> on each captured
  packet, one at a time; an exception of \<^verbatim>\<open>prn\<close> ends it.  A SIGHUP that arrives while
  it waits runs the handler in the same thread, and an exception of the handler ends it
  as well.  What happens to the worker is therefore driven by a sequence of events.
\<close>

datatype event = Captured packet | SIGHUP

fun sniff :: "(packet \<Rightarrow> (worker, 'a) prog) \<Rightarrow> event list \<Rightarrow> (worker, unit) prog" where
  "sniff prn [] w = (Inr (), w)"
| "sniff prn (Captured pkt # evs) w =
     (case prn pkt w of (Inl e, w1) \<Rightarrow> (Inl e, w1) | (Inr v, w1) \<Rightarrow> sniff prn evs w1)"
| "sniff prn (SIGHUP # evs) w =
     (case handle_SIGHUP w of (Inl e, w1) \<Rightarrow> (Inl e, w1) | (Inr u, w1) \<Rightarrow> sniff prn evs w1)"

text \<open>\<^verbatim>\<open>sys.executable\<close> and \<^verbatim>\<open>sys.argv\<close> of the running process.\<close>

record process =
  sys_executable :: string
  sys_argv :: "string list"

text \<open>
  The body of \<^verbatim>\<open>Worker.run\<close>, which every concrete \<^verbatim>\<open>run\<close> reaches through
  \<^verbatim>\<open>super().run()\<close>.  The greeting carries the worker's name.
\<close>

definition Worker_run :: "process \<Rightarrow> string \<Rightarrow> worker \<Rightarrow> worker" where
  "Worker_run ps WORKER_NAME w =
     w\<lparr>logged := logged w @ [''Hi, I'm '' @ WORKER_NAME],
       cmd := Some ([sys_executable ps] @ sys_argv ps),
       waiting_to_restart := False\<rparr>"

text \<open>
  \<^verbatim>\<open>PacketSnifferWorker.run\<close>.  The filter and the interface names only reach the log
  and scapy; the line listing the interfaces is given as the caller formatted it.
\<close>

definition PacketSnifferWorker_run ::
  "env \<Rightarrow> process \<Rightarrow> string \<Rightarrow> string \<Rightarrow> string \<Rightarrow> event list \<Rightarrow> (worker, unit) prog" where
  "PacketSnifferWorker_run E ps WORKER_NAME WANTED_PACKETS interfaces evs w =
     (let w1 = Worker_run ps WORKER_NAME w;
          w2 = w1\<lparr>logged := logged w1 @ [''monitoring packets matching: '' @ WANTED_PACKETS]\<rparr>;
          w3 = w2\<lparr>logged := logged w2 @ [''listening on: '' @ interfaces]\<rparr>
      in sniff (\<lambda>pkt. wrapped_process_packet (process_packet_method E pkt)) evs w3)"

text \<open>
  \<^verbatim>\<open>Worker.main\<close>, on the worker \<^verbatim>\<open>cls()\<close> made and for the \<^verbatim>\<open>run\<close> of that class.
  What the process does to the outside is a list of effects; \<^verbatim>\<open>os.execv\<close> is the last
  thing a process does.  \<^verbatim>\<open>worker._cmd\<close> raises when \<^verbatim>\<open>run\<close> never assigned it, and
  \<^verbatim>\<open>command[0]\<close> when the list is empty.
\<close>

datatype effect = Flush_stdout | Flush_stderr | Execv string "string list"

definition Worker_main ::
  "(worker, 'a) prog \<Rightarrow> worker \<Rightarrow> (exn + unit) \<times> worker \<times> effect list" where
  "Worker_main run w =
     (case run w of
        (Inl RestartWorker, w1) \<Rightarrow>
          (case cmd w1 of
             None \<Rightarrow> (Inl (Error ''AttributeError''), w1, [])
           | Some command \<Rightarrow>
               (let w2 = w1\<lparr>logged := logged w1 @ [''restarting NOW...'']\<rparr> in
                case command of
                  [] \<Rightarrow> (Inl (Error ''IndexError''), w2, [Flush_stdout, Flush_stderr])
                | c0 # cs \<Rightarrow> (Inr (), w2, [Flush_stdout, Flush_stderr, Execv c0 command])))
      | (Inl e, w1) \<Rightarrow> (Inl e, w1, [])
      | (Inr v, w1) \<Rightarrow> (Inr (), w1, []))"


section \<open>The store\<close>

text \<open>
  Modelled from the spec: the key-value store is a service outside the repository, and
  section 6 of the specification gives the meaning of its operations:
  \<open>SET-FIELDS\<close> overwrites the given fields of a record, \<open>SET-FIELD-IF-ABSENT\<close> writes a
  field only if it does not exist, \<open>INCREMENT-FIELD\<close> adds to a counter and creates it at
  the increment if absent, \<open>ADD-TO-SET\<close> adds a member, \<open>SET-EXPIRY\<close> attaches a
  time-to-live, and \<open>SUBMIT-BATCH\<close> performs the operations in order.  An increment of
  a field that holds no number is rejected by the store and changes nothing.
\<close>

record store =
  hashes :: "string \<Rightarrow> (pyval \<rightharpoonup> pyval)"
  sets :: "string \<Rightarrow> pyval set"
  ttl :: "string \<rightharpoonup> int"





section \<open>Reading a batch\<close>


fun is_EXPIRE :: "redis_op \<Rightarrow> bool" where
  "is_EXPIRE (EXPIRE key secs) = True"
| "is_EXPIRE c = False"


section \<open>Example inputs\<close>

text \<open>
  Small stand-ins for the library calls, used to run the definitions on concrete packets:
  a dissector that reads a protocol tag (4 for IPv4, followed by an identification and a
  checksum byte; 6 for ARP; 129 for an 802.1Q tag, followed by what the tagged frame
  carries), the serialiser that writes them back, and a digest that maps each byte to a
  character; a worker whose callback attaches a time-to-live of 28 days to the packet
  record; variants in which the digest, the callback or the store raises; and a worker
  whose callback writes \<open>first_seen\<close> of the packet record itself.
\<close>

definition example_worker :: worker where
  "example_worker =
     \<lparr>name = ''susan'', db = [], waiting_to_restart = False,
      cmd = Some [''/usr/bin/python3'', ''susan.py''], logged = []\<rparr>"

definition example_ether :: ether_fields where
  "example_ether =
     \<lparr>dst = ''c8:e1:30:ba:be:23'', src = ''00:0D:F7:12:CA:FE'', ethertype = 0x0800\<rparr>"

fun toy_payload :: "bytes \<Rightarrow> layer list" where
  "toy_payload [] = [Raw []]"
| "toy_payload (x # r) =
     (if x = 129 then Dot1Q [x] # toy_payload r
      else if x = 4 then
        (case r of
           i # c # rest \<Rightarrow> [IP \<lparr>ip_id = ucast i, ip_chksum = ucast c, ip_other = rest\<rparr>]
         | short \<Rightarrow> [Raw (x # r)])
      else if x = 6 then [ARP r]
      else [Raw (x # r)])"

definition toy_dissect :: "bytes \<Rightarrow> layer list" where
  "toy_dissect b = Ether example_ether # toy_payload b"

fun toy_layer_bytes :: "layer \<Rightarrow> bytes" where
  "toy_layer_bytes (Ether e) = []"
| "toy_layer_bytes (IP f) = 4 # ucast (ip_id f) # ucast (ip_chksum f) # ip_other f"
| "toy_layer_bytes (ARP a) = 6 # a"
| "toy_layer_bytes (Raw r) = r"
| "toy_layer_bytes (Dot1Q d) = d"

definition toy_build :: "layer list \<Rightarrow> bytes" where
  "toy_build ls = concat (map toy_layer_bytes ls)"

definition toy_digest :: "bytes \<Rightarrow> string" where
  "toy_digest b = map (\<lambda>x. if x = 9 then CHR ''9'' else if x < 9 then CHR ''0'' else CHR ''f'') b"

definition example_env :: env where
  "example_env =
     \<lparr>Ether_dissect = (\<lambda>b. Inr (toy_dissect b)),
      build = (\<lambda>ls. Inr (toy_build ls)),
      blake2s_hexdigest = (\<lambda>b. Inr (toy_digest b)),
      process_packet = (\<lambda>a. ([EXPIRE (arg_packet_key a) 2419200], Inr None)),
      execute = (\<lambda>ops. Inr ())\<rparr>"

definition failing_hash_env :: env where
  "failing_hash_env = example_env\<lparr>blake2s_hexdigest := (\<lambda>b. Inl (Error ''TypeError''))\<rparr>"

definition failing_callback_env :: env where
  "failing_callback_env =
     example_env\<lparr>process_packet :=
       (\<lambda>a. ([HSET ''dns_partial'' [(PStr ''seen_in'', opt_val (arg_packet_hash a))]],
             Inl (Error ''ValueError'')))\<rparr>"


definition failing_store_env :: env where
  "failing_store_env = example_env\<lparr>execute := (\<lambda>ops. Inl (Error ''ConnectionError''))\<rparr>"

text \<open>
  Captured packets: one without an Ethernet layer, and Ethernet frames that carry IPv4
  (with the given identification and checksum bytes), ARP, something else, and IPv4
  behind an 802.1Q tag.
\<close>

definition packet_no_ether :: packet where
  "packet_no_ether =
     \<lparr>original = [1, 2, 3], time = 5, sniffed_on = ''wlx0023cafebabe'', layers = [Raw [1, 2, 3]]\<rparr>"

definition packet_ipv4 :: "byte \<Rightarrow> byte \<Rightarrow> packet" where
  "packet_ipv4 i c =
     \<lparr>original = [4, i, c, 9, 9], time = 5, sniffed_on = ''wlx0023cafebabe'',
      layers = toy_dissect [4, i, c, 9, 9]\<rparr>"

definition packet_arp :: packet where
  "packet_arp =
     \<lparr>original = [6, 1, 2], time = 5, sniffed_on = ''wlx0023cafebabe'',
      layers = toy_dissect [6, 1, 2]\<rparr>"

definition packet_vlan_ipv4 :: packet where
  "packet_vlan_ipv4 =
     \<lparr>original = [129, 4, 1, 2, 9, 9], time = 5, sniffed_on = ''wlx0023cafebabe'',
      layers = toy_dissect [129, 4, 1, 2, 9, 9]\<rparr>"

definition packet_other :: packet where
  "packet_other =
     \<lparr>original = [8, 1, 2], time = 5, sniffed_on = ''wlx0023cafebabe'',
      layers = toy_dissect [8, 1, 2]\<rparr>"


text \<open>The process the example worker runs in.\<close>

definition example_process :: process where
  "example_process =
     \<lparr>sys_executable = ''/usr/bin/python3'', sys_argv = [''-m'', ''nx.workers.susan'']\<rparr>"


section \<open>Facts about the processor\<close>

lemmas fixture_defs = example_worker_def example_ether_def toy_dissect_def toy_build_def
  toy_digest_def example_env_def failing_hash_env_def failing_callback_env_def
  packet_no_ether_def packet_ipv4_def packet_arp_def packet_other_def

lemma fixture_fields:
  "name example_worker = ''susan''"
  "db example_worker = []"
  "time packet_no_ether = 5"
  "time (packet_ipv4 i c) = 5"
  "getlayer_Ether (layers packet_no_ether) = None"
  "getlayer_Ether (layers (packet_ipv4 i c)) = Some example_ether"
  by (simp_all add: fixture_defs)

lemma sadd_issues_eq:
  "sadd_issues cs p =
     p\<lparr>pipeline := pipeline p @ map (\<lambda>c. SADD c (opt_val (packet_hash p))) cs\<rparr>"
  by (induction cs arbitrary: p) simp_all

lemma packet_hash_bytes_fst:
  "packet q = packet p \<Longrightarrow> fst (packet_hash_bytes E q) = fst (packet_hash_bytes E p)"
  by (simp add: packet_hash_bytes_def ether_layer_def Let_def split: sum.splits option.splits)

lemma compute_packet_hash_snd:
  "snd (compute_packet_hash E p) = snd (packet_hash_bytes E p)"
  by (simp add: compute_packet_hash_def split: prod.splits sum.splits)

lemma compute_packet_hash_fst:
  "packet q = packet p \<Longrightarrow> fst (compute_packet_hash E q) = fst (compute_packet_hash E p)"
  using packet_hash_bytes_fst [of q p E]
  by (auto simp add: compute_packet_hash_def split: prod.splits sum.splits)

lemma run_unfold:
  "PacketProcessor_run E p0 =
     (let pb = snd (run_body E (p0\<lparr>pipeline := []\<rparr>));
          r = fst (run_body E (p0\<lparr>pipeline := []\<rparr>));
          batch = pipeline pb @ map (\<lambda>c. SADD c (opt_val (packet_hash pb))) (issue_categories pb)
                  @ [HSET ''heartbeats'' [(PStr (name (worker p0)), PTime (time (packet p0)))]]
      in (case execute E batch of Inl e \<Rightarrow> Inl e | Inr u \<Rightarrow> map_sum id (\<lambda>_. ()) r,
          pb\<lparr>pipeline := batch, worker := (worker pb)\<lparr>db := db (worker pb) @ [batch]\<rparr>\<rparr>))"
  by (simp add: PacketProcessor_run_def try_finally_def run_discard_def add_issues_def
      add_heartbeat_def pipeline_execute_def sadd_issues_eq Let_def
      split: prod.splits sum.splits)

lemma packet_hash_bytes_state:
  "snd (packet_hash_bytes E p) =
     p\<lparr>issue_categories := issue_categories p @
        (case ether_layer p of
           None \<Rightarrow> []
         | Some eth \<Rightarrow>
             (case Ether_dissect E (original (packet p)) of
                Inl e \<Rightarrow> []
              | Inr c \<Rightarrow> if getlayer_IP c = None \<and> \<not> haslayer_ARP c
                         then [''unhandled:pkts:ether_payload''] else []))\<rparr>"
  by (auto simp add: packet_hash_bytes_def record_issue_def Let_def
      split: sum.splits option.splits)

lemma ether_layer_upd:
  "ether_layer (p\<lparr>common_fields := cf\<rparr>) = ether_layer p"
  "ether_layer (p\<lparr>issue_categories := ic\<rparr>) = ether_layer p"
  "ether_layer (p\<lparr>packet_hash := ph\<rparr>) = ether_layer p"
  "ether_layer (p\<lparr>packet_key := pk\<rparr>) = ether_layer p"
  "ether_layer (p\<lparr>src_mac := sm\<rparr>) = ether_layer p"
  "ether_layer (p\<lparr>mac_key := mk\<rparr>) = ether_layer p"
  "ether_layer (p\<lparr>pipeline := pl\<rparr>) = ether_layer p"
  by (simp_all add: ether_layer_def)

lemma hash_upd:
  "fst (compute_packet_hash E (p\<lparr>common_fields := cf\<rparr>)) = fst (compute_packet_hash E p)"
  "fst (compute_packet_hash E (p\<lparr>issue_categories := ic\<rparr>)) = fst (compute_packet_hash E p)"
  by (rule compute_packet_hash_fst, simp)+

lemma run_body_no_hash:
  assumes "fst (compute_packet_hash E p0) = Inl e"
  shows "fst (run_body E p0) = Inl e"
    and "pipeline (snd (run_body E p0)) = pipeline p0"
    and "packet_hash (snd (run_body E p0)) = packet_hash p0"
  using assms
  by (simp_all add: run_body_def Let_def case_prod_beta compute_packet_hash_snd
      packet_hash_bytes_state record_issue_def ether_layer_upd hash_upd)

lemma run_body_no_ether:
  assumes "fst (compute_packet_hash E p0) = Inr h" and "ether_layer p0 = None"
  shows "fst (run_body E p0) = Inr None"
    and "pipeline (snd (run_body E p0)) = pipeline p0 @
           [HSET (''pkt_'' @ h)
              ((case src_mac p0 of None \<Rightarrow> (\<lambda>x. x)
                | Some m \<Rightarrow> AList.update (PStr ''last_seen_from'') (PStr m))
               [(PStr ''last_seen'', PTime (time (packet p0))),
                (PStr ''last_seen_by'', PStr (name (worker p0))),
                (PStr (''last_seen_by_'' @ name (worker p0)), PTime (time (packet p0))),
                (PStr ''raw_bytes'', PBytes (original (packet p0))),
                (PStr ''last_sniffed_on'', PStr (sniffed_on (packet p0)))]),
            HSETNX (''pkt_'' @ h) ''first_seen'' (PTime (time (packet p0))),
            HINCRBY (''pkt_'' @ h) ''num_sightings'' 1]"
    and "packet_hash (snd (run_body E p0)) = Some h"
  using assms
  by (simp_all add: run_body_def Let_def case_prod_beta compute_packet_hash_snd
      packet_hash_bytes_state record_issue_def ether_layer_upd hash_upd
      record_raw_packet_def split: option.splits)

lemma run_body_ether:
  assumes "fst (compute_packet_hash E p0) = Inr h" and "ether_layer p0 = Some eth"
  shows "fst (run_body E p0) =
           snd (process_packet E
             \<lparr>arg_packet = packet p0,
              arg_common_fields =
                [(PStr ''last_seen'', PTime (time (packet p0))),
                 (PStr ''last_seen_by'', PStr (name (worker p0))),
                 (PStr (''last_seen_by_'' @ name (worker p0)), PTime (time (packet p0)))],
              arg_macaddr = Some (lower (src eth)), arg_mac_key = ''mac_'' @ lower (src eth),
              arg_packet_hash = Some h, arg_packet_key = ''pkt_'' @ h\<rparr>)"
    and "pipeline (snd (run_body E p0)) = pipeline p0 @
           [HSET (''pkt_'' @ h)
               [(PStr ''last_seen'', PTime (time (packet p0))),
                (PStr ''last_seen_by'', PStr (name (worker p0))),
                (PStr (''last_seen_by_'' @ name (worker p0)), PTime (time (packet p0))),
                (PStr ''raw_bytes'', PBytes (original (packet p0))),
                (PStr ''last_sniffed_on'', PStr (sniffed_on (packet p0))),
                (PStr ''last_seen_from'', PStr (lower (src eth)))],
            HSETNX (''pkt_'' @ h) ''first_seen'' (PTime (time (packet p0))),
            HINCRBY (''pkt_'' @ h) ''num_sightings'' 1,
            SADD ''macs'' (PStr (lower (src eth))),
            HSET (''mac_'' @ lower (src eth))
               [(PStr ''last_seen'', PTime (time (packet p0))),
                (PStr ''last_seen_by'', PStr (name (worker p0))),
                (PStr (''last_seen_by_'' @ name (worker p0)), PTime (time (packet p0)))],
            HSETNX (''mac_'' @ lower (src eth)) ''first_seen'' (PTime (time (packet p0))),
            HSET (''macpkts_'' @ lower (src eth)) [(PStr h, PTime (time (packet p0)))]]
           @ fst (process_packet E
             \<lparr>arg_packet = packet p0,
              arg_common_fields =
                [(PStr ''last_seen'', PTime (time (packet p0))),
                 (PStr ''last_seen_by'', PStr (name (worker p0))),
                 (PStr (''last_seen_by_'' @ name (worker p0)), PTime (time (packet p0)))],
              arg_macaddr = Some (lower (src eth)), arg_mac_key = ''mac_'' @ lower (src eth),
              arg_packet_hash = Some h, arg_packet_key = ''pkt_'' @ h\<rparr>)"
    and "packet_hash (snd (run_body E p0)) = Some h"
  using assms
  by (simp_all add: run_body_def Let_def case_prod_beta compute_packet_hash_snd
      packet_hash_bytes_state record_issue_def ether_layer_upd hash_upd
      record_raw_packet_def record_device_sighting_def opt_val_def format_opt_def)

lemma run_body_issues:
  "issue_categories (snd (run_body E p0)) =
     issue_categories p0 @
       (case ether_layer p0 of
          None \<Rightarrow> [''unhandled:pkts:first_layer'']
        | Some eth \<Rightarrow>
            (case Ether_dissect E (original (packet p0)) of
               Inl e \<Rightarrow> []
             | Inr c \<Rightarrow> if getlayer_IP c = None \<and> \<not> haslayer_ARP c
                        then [''unhandled:pkts:ether_payload''] else []))"
proof (cases "fst (compute_packet_hash E p0)")
  case (Inl e)
  then show ?thesis
    by (simp add: run_body_def Let_def case_prod_beta compute_packet_hash_snd
        packet_hash_bytes_state record_issue_def ether_layer_upd hash_upd
        split: option.splits)
next
  case (Inr h)
  then show ?thesis
    by (simp add: run_body_def Let_def case_prod_beta compute_packet_hash_snd
        packet_hash_bytes_state record_issue_def ether_layer_upd hash_upd
        record_raw_packet_def record_device_sighting_def
        split: option.splits)
qed

lemma run_body_worker: "worker (snd (run_body E p0)) = worker p0"
proof (cases "fst (compute_packet_hash E p0)")
  case (Inl e)
  then show ?thesis
    by (simp add: run_body_def Let_def case_prod_beta compute_packet_hash_snd
        packet_hash_bytes_state record_issue_def ether_layer_upd hash_upd
        split: option.splits)
next
  case (Inr h)
  then show ?thesis
    by (simp add: run_body_def Let_def case_prod_beta compute_packet_hash_snd
        packet_hash_bytes_state record_issue_def ether_layer_upd hash_upd
        record_raw_packet_def record_device_sighting_def
        split: option.splits)
qed

lemma init_pipeline: "(PacketProcessor_init w pkt)\<lparr>pipeline := []\<rparr> = PacketProcessor_init w pkt"
  by (simp add: PacketProcessor_init_def)

lemma init_fields:
  "worker (PacketProcessor_init w pkt) = w"
  "packet (PacketProcessor_init w pkt) = pkt"
  "issue_categories (PacketProcessor_init w pkt) = []"
  "packet_hash (PacketProcessor_init w pkt) = None"
  "src_mac (PacketProcessor_init w pkt) = None"
  "pipeline (PacketProcessor_init w pkt) = []"
  "ether_layer (PacketProcessor_init w pkt) = getlayer_Ether (layers pkt)"
  by (simp_all add: PacketProcessor_init_def ether_layer_def)

lemma run_final:
  "snd (PacketProcessor_run E (PacketProcessor_init w pkt)) =
     (let pb = snd (run_body E (PacketProcessor_init w pkt));
          batch = pipeline pb @ map (\<lambda>c. SADD c (opt_val (packet_hash pb))) (issue_categories pb)
                  @ [HSET ''heartbeats'' [(PStr (name w), PTime (time pkt))]]
      in pb\<lparr>pipeline := batch, worker := w\<lparr>db := db w @ [batch]\<rparr>\<rparr>)"
  by (simp add: run_unfold init_pipeline init_fields run_body_worker Let_def)


lemma packet_hash_bytes_no_ether:
  "ether_layer p = None \<Longrightarrow> fst (packet_hash_bytes E p) = Inr (original (packet p))"
  by (simp add: packet_hash_bytes_def)

lemma packet_hash_bytes_no_ip:
  "ether_layer p = Some eth \<Longrightarrow> Ether_dissect E (original (packet p)) = Inr c \<Longrightarrow>
   getlayer_IP c = None \<Longrightarrow> fst (packet_hash_bytes E p) = Inr (original (packet p))"
  by (simp add: packet_hash_bytes_def)

lemma packet_hash_bytes_ip:
  "ether_layer p = Some eth \<Longrightarrow> Ether_dissect E (original (packet p)) = Inr c \<Longrightarrow>
   getlayer_IP c = Some f \<Longrightarrow>
   fst (packet_hash_bytes E p) =
     build E (update_IP (\<lambda>f. f\<lparr>ip_chksum := 0xbeef\<rparr>) (update_IP (\<lambda>f. f\<lparr>ip_id := 0xdead\<rparr>) c))"
  by (simp add: packet_hash_bytes_def Let_def)

lemma compute_packet_hash_bytes:
  "fst (packet_hash_bytes E p) = Inr b \<Longrightarrow> fst (compute_packet_hash E p) = blake2s_hexdigest E b"
  by (cases "packet_hash_bytes E p") (simp add: compute_packet_hash_def)

lemma run_final_issues:
  "issue_categories (snd (PacketProcessor_run E (PacketProcessor_init w pkt))) =
     (case getlayer_Ether (layers pkt) of
          None \<Rightarrow> [''unhandled:pkts:first_layer'']
        | Some eth \<Rightarrow>
            (case Ether_dissect E (original pkt) of
               Inl e \<Rightarrow> []
             | Inr c \<Rightarrow> if getlayer_IP c = None \<and> \<not> haslayer_ARP c
                        then [''unhandled:pkts:ether_payload''] else []))"
  by (simp add: run_final Let_def run_body_issues init_fields cong: option.case_cong)




lemma compute_packet_hash_again:
  "fst (compute_packet_hash E (snd (compute_packet_hash E p))) = fst (compute_packet_hash E p)"
  by (rule compute_packet_hash_fst) (simp add: compute_packet_hash_snd packet_hash_bytes_state)

lemma filter_EXPIRE_SADD: "filter is_EXPIRE (map (\<lambda>c. SADD c x) cs) = []"
  by (induction cs) simp_all

lemma run_batch_no_hash:
  assumes "fst (compute_packet_hash E (PacketProcessor_init w pkt)) = Inl e"
  shows "pipeline (snd (PacketProcessor_run E (PacketProcessor_init w pkt))) =
     map (\<lambda>c. SADD c PNone)
       (issue_categories (snd (PacketProcessor_run E (PacketProcessor_init w pkt)))) @
     [HSET ''heartbeats'' [(PStr (name w), PTime (time pkt))]]"
  using run_body_no_hash(2,3) [OF assms]
  by (simp add: run_final Let_def init_fields opt_val_def)

lemma run_batch_no_ether:
  assumes "fst (compute_packet_hash E (PacketProcessor_init w pkt)) = Inr h"
    and "getlayer_Ether (layers pkt) = None"
  shows "pipeline (snd (PacketProcessor_run E (PacketProcessor_init w pkt))) =
     [HSET (''pkt_'' @ h)
        [(PStr ''last_seen'', PTime (time pkt)),
         (PStr ''last_seen_by'', PStr (name w)),
         (PStr (''last_seen_by_'' @ name w), PTime (time pkt)),
         (PStr ''raw_bytes'', PBytes (original pkt)),
         (PStr ''last_sniffed_on'', PStr (sniffed_on pkt))],
      HSETNX (''pkt_'' @ h) ''first_seen'' (PTime (time pkt)),
      HINCRBY (''pkt_'' @ h) ''num_sightings'' 1,
      SADD ''unhandled:pkts:first_layer'' (PStr h),
      HSET ''heartbeats'' [(PStr (name w), PTime (time pkt))]]"
proof -
  have e: "ether_layer (PacketProcessor_init w pkt) = None"
    using assms(2) by (simp add: init_fields)
  show ?thesis
    using run_body_no_ether(2,3) [OF assms(1) e] assms(2)
    by (simp add: run_final Let_def init_fields opt_val_def run_body_issues)
qed

lemma run_batch_ether:
  assumes "fst (compute_packet_hash E (PacketProcessor_init w pkt)) = Inr h"
    and "getlayer_Ether (layers pkt) = Some eth"
  shows "pipeline (snd (PacketProcessor_run E (PacketProcessor_init w pkt))) =
     [HSET (''pkt_'' @ h)
        [(PStr ''last_seen'', PTime (time pkt)),
         (PStr ''last_seen_by'', PStr (name w)),
         (PStr (''last_seen_by_'' @ name w), PTime (time pkt)),
         (PStr ''raw_bytes'', PBytes (original pkt)),
         (PStr ''last_sniffed_on'', PStr (sniffed_on pkt)),
         (PStr ''last_seen_from'', PStr (lower (src eth)))],
      HSETNX (''pkt_'' @ h) ''first_seen'' (PTime (time pkt)),
      HINCRBY (''pkt_'' @ h) ''num_sightings'' 1,
      SADD ''macs'' (PStr (lower (src eth))),
      HSET (''mac_'' @ lower (src eth))
        [(PStr ''last_seen'', PTime (time pkt)),
         (PStr ''last_seen_by'', PStr (name w)),
         (PStr (''last_seen_by_'' @ name w), PTime (time pkt))],
      HSETNX (''mac_'' @ lower (src eth)) ''first_seen'' (PTime (time pkt)),
      HSET (''macpkts_'' @ lower (src eth)) [(PStr h, PTime (time pkt))]] @
     fst (process_packet E
       \<lparr>arg_packet = pkt,
        arg_common_fields =
          [(PStr ''last_seen'', PTime (time pkt)),
           (PStr ''last_seen_by'', PStr (name w)),
           (PStr (''last_seen_by_'' @ name w), PTime (time pkt))],
        arg_macaddr = Some (lower (src eth)), arg_mac_key = ''mac_'' @ lower (src eth),
        arg_packet_hash = Some h, arg_packet_key = ''pkt_'' @ h\<rparr>) @
     map (\<lambda>c. SADD c (PStr h))
       (issue_categories (snd (PacketProcessor_run E (PacketProcessor_init w pkt)))) @
     [HSET ''heartbeats'' [(PStr (name w), PTime (time pkt))]]"
proof -
  have e: "ether_layer (PacketProcessor_init w pkt) = Some eth"
    using assms(2) by (simp add: init_fields)
  show ?thesis
    using run_body_ether(2,3) [OF assms(1) e]
    by (simp add: run_final Let_def init_fields opt_val_def)
qed


section \<open>Facts about the store\<close>
















section \<open>Facts about the worker\<close>

lemma handle_SIGHUP_clear:
  "\<not> waiting_to_restart w \<Longrightarrow>
   handle_SIGHUP w =
     (Inr (), w\<lparr>logged := logged w @ [''received SIGHUP, will restart at next checkpoint''],
                waiting_to_restart := True\<rparr>)"
  by (simp add: handle_SIGHUP_def)

lemma handle_SIGHUP_set:
  "waiting_to_restart w \<Longrightarrow>
   handle_SIGHUP w =
     (Inl RestartWorker,
      w\<lparr>logged := logged w @ [''received second SIGHUP, forcing restart now'',
                              ''going down for restart'']\<rparr>)"
  by (simp add: handle_SIGHUP_def checkpoint_worker_def)

lemma wrapped_clear:
  "\<not> waiting_to_restart (snd (process w)) \<Longrightarrow>
   wrapped_process_packet process w =
     (case fst (process w) of
        Inl e \<Rightarrow> (Inr None, (snd (process w))
                    \<lparr>logged := logged (snd (process w)) @ [''packet processing failed:'']\<rparr>)
      | Inr v \<Rightarrow> (Inr (Some v), snd (process w)))"
  by (cases "process w")
    (simp add: wrapped_process_packet_def try_finally_def checkpoint_worker_def split: sum.splits)

lemma wrapped_set:
  "waiting_to_restart (snd (process w)) \<Longrightarrow>
   wrapped_process_packet process w =
     (Inl RestartWorker,
      (snd (process w))\<lparr>logged := logged (snd (process w)) @
         (case fst (process w) of Inl e \<Rightarrow> [''packet processing failed:''] | Inr v \<Rightarrow> []) @
         [''going down for restart'']\<rparr>)"
  by (cases "process w")
    (simp add: wrapped_process_packet_def try_finally_def checkpoint_worker_def split: sum.splits)

lemma process_packet_method_eq:
  "process_packet_method E pkt w =
     (fst (PacketProcessor_run E (PacketProcessor_init w pkt)),
      w\<lparr>db := db w @ [pipeline (snd (PacketProcessor_run E (PacketProcessor_init w pkt)))]\<rparr>)"
  by (simp add: process_packet_method_def case_prod_beta run_final Let_def)

lemma run_outcome:
  "fst (PacketProcessor_run E (PacketProcessor_init w pkt)) =
     (case execute E (pipeline (snd (PacketProcessor_run E (PacketProcessor_init w pkt)))) of
        Inl e \<Rightarrow> Inl e
      | Inr u \<Rightarrow> map_sum id (\<lambda>_. ()) (fst (run_body E (PacketProcessor_init w pkt))))"
  by (simp add: run_unfold init_pipeline init_fields Let_def)

lemma wrapped_method_cmd:
  "cmd (snd (wrapped_process_packet (process_packet_method E pkt) w)) = cmd w"
  by (cases "waiting_to_restart w")
    (simp_all add: wrapped_clear wrapped_set process_packet_method_eq split: sum.splits)

lemma handle_SIGHUP_cmd: "cmd (snd (handle_SIGHUP w)) = cmd w"
  by (cases "waiting_to_restart w") (simp_all add: handle_SIGHUP_clear handle_SIGHUP_set)

lemma sniff_cmd:
  "cmd (snd (sniff (\<lambda>pkt. wrapped_process_packet (process_packet_method E pkt)) evs w)) = cmd w"
proof (induction evs arbitrary: w)
  case Nil
  then show ?case by simp
next
  case (Cons ev evs)
  show ?case
  proof (cases ev)
    case (Captured pkt)
    show ?thesis
      using Cons [of "snd (wrapped_process_packet (process_packet_method E pkt) w)"]
        wrapped_method_cmd [of E pkt w]
      by (cases "wrapped_process_packet (process_packet_method E pkt) w")
        (auto simp add: Captured split: sum.splits)
  next
    case SIGHUP
    show ?thesis
      using Cons [of "snd (handle_SIGHUP w)"] handle_SIGHUP_cmd [of w]
      by (cases "handle_SIGHUP w") (auto simp add: SIGHUP split: sum.splits)
  qed
qed

lemma sniffer_run_cmd:
  "cmd (snd (PacketSnifferWorker_run E ps WORKER_NAME WANTED_PACKETS interfaces evs w)) =
     Some (sys_executable ps # sys_argv ps)"
  by (simp add: PacketSnifferWorker_run_def Let_def sniff_cmd Worker_run_def)

lemma main_restart:
  "fst (run w) = Inl RestartWorker \<Longrightarrow> cmd (snd (run w)) = Some (c0 # cs) \<Longrightarrow>
   Worker_main run w =
     (Inr (), (snd (run w))\<lparr>logged := logged (snd (run w)) @ [''restarting NOW...'']\<rparr>,
      [Flush_stdout, Flush_stderr, Execv c0 (c0 # cs)])"
  by (cases "run w") (simp add: Worker_main_def)

lemma main_other:
  "fst (run w) \<noteq> Inl RestartWorker \<Longrightarrow>
   Worker_main run w = (map_sum id (\<lambda>_. ()) (fst (run w)), snd (run w), [])"
  by (cases "run w") (auto simp add: Worker_main_def split: sum.splits exn.splits)

lemma method_waiting:
  "waiting_to_restart (snd (process_packet_method E pkt w)) = waiting_to_restart w"
  by (simp add: process_packet_method_eq)

section \<open>The batch of one packet\<close>

text \<open>
  C1.  Whatever the library calls, the worker's callback and the store do (so also when
  \<^verbatim>\<open>_run\<close> raises at any point), \<^verbatim>\<open>run\<close> ends with a batch that consists of
  what \<^verbatim>\<open>_run\<close> had appended, then one \<open>SADD\<close> for every recorded anomaly
  category, then the heartbeat of this worker at the packet's timestamp; and the
  worker's store received exactly one more submission, which is that batch.
\<close>

theorem run_guaranteed_effects:
  "let pb = snd (run_body E (PacketProcessor_init w pkt));
       p' = snd (PacketProcessor_run E (PacketProcessor_init w pkt))
   in issue_categories p' = issue_categories pb \<and>
      packet_hash p' = packet_hash pb \<and>
      pipeline p' =
        pipeline pb @
        map (\<lambda>c. SADD c (opt_val (packet_hash p'))) (issue_categories p') @
        [HSET ''heartbeats'' [(PStr (name w), PTime (time pkt))]] \<and>
      db (worker p') = db w @ [pipeline p']"
  by (simp add: run_final Let_def)

theorem run_guaranteed_effects_witness:
  "fst (run_body failing_callback_env
         (PacketProcessor_init example_worker (packet_ipv4 1 2))) = Inl (Error ''ValueError'') \<and>
   db (worker (snd (PacketProcessor_run failing_callback_env
         (PacketProcessor_init example_worker (packet_ipv4 1 2))))) =
     [pipeline (snd (PacketProcessor_run failing_callback_env
         (PacketProcessor_init example_worker (packet_ipv4 1 2))))] \<and>
   last (pipeline (snd (PacketProcessor_run failing_callback_env
         (PacketProcessor_init example_worker (packet_ipv4 1 2))))) =
     HSET ''heartbeats'' [(PStr ''susan'', PTime 5)]"
proof -
  have h: "fst (compute_packet_hash failing_callback_env
         (PacketProcessor_init example_worker (packet_ipv4 1 2))) = Inr ''0ff99''"
    by (simp add: compute_packet_hash_def packet_hash_bytes_def init_fields fixture_defs Let_def)
  have e: "ether_layer (PacketProcessor_init example_worker (packet_ipv4 1 2)) = Some example_ether"
    by (simp add: init_fields fixture_fields)
  have r: "fst (run_body failing_callback_env
         (PacketProcessor_init example_worker (packet_ipv4 1 2))) = Inl (Error ''ValueError'')"
    using run_body_ether(1) [OF h e] by (simp add: failing_callback_env_def)
  show ?thesis
    using run_guaranteed_effects [where E = failing_callback_env and w = example_worker
        and pkt = "packet_ipv4 1 2"]
    by (auto simp add: Let_def r fixture_fields)
qed

text \<open>
  C10.  Every recorded anomaly category \<open>c\<close> is added to the set
  \<open>unhandled:pkts:c\<close>, and the member added is \<^verbatim>\<open>packet_hash\<close> as it is when the
  batch is submitted: the hash when it was computed, and \<^verbatim>\<open>None\<close> when computing it
  raised, in which case the anomaly operations and the heartbeat are the whole batch.
\<close>

theorem issue_set_members:
  "let p0 = PacketProcessor_init w pkt;
       p' = snd (PacketProcessor_run E p0);
       recorded =
         (case getlayer_Ether (layers pkt) of
            None \<Rightarrow> [''first_layer'']
          | Some eth \<Rightarrow>
              (case Ether_dissect E (original pkt) of
                 Inl e \<Rightarrow> []
               | Inr c \<Rightarrow> if getlayer_IP c = None \<and> \<not> haslayer_ARP c
                          then [''ether_payload''] else []));
       heartbeat = HSET ''heartbeats'' [(PStr (name w), PTime (time pkt))]
   in issue_categories p' = map (\<lambda>c. ''unhandled:pkts:'' @ c) recorded \<and>
      pipeline p' =
        pipeline (snd (run_body E p0)) @
        map (\<lambda>c. SADD (''unhandled:pkts:'' @ c) (opt_val (packet_hash p'))) recorded @
        [heartbeat] \<and>
      (\<forall>h. fst (compute_packet_hash E p0) = Inr h \<longrightarrow> packet_hash p' = Some h) \<and>
      (\<forall>e. fst (compute_packet_hash E p0) = Inl e \<longrightarrow>
           packet_hash p' = None \<and>
           pipeline p' =
             map (\<lambda>c. SADD (''unhandled:pkts:'' @ c) PNone) recorded @ [heartbeat])"
proof -
  let ?p0 = "PacketProcessor_init w pkt"
  have iss: "issue_categories (snd (run_body E ?p0)) =
      map (\<lambda>c. ''unhandled:pkts:'' @ c)
       (case getlayer_Ether (layers pkt) of
            None \<Rightarrow> [''first_layer'']
          | Some eth \<Rightarrow>
              (case Ether_dissect E (original pkt) of
                 Inl e \<Rightarrow> []
               | Inr c \<Rightarrow> if getlayer_IP c = None \<and> \<not> haslayer_ARP c
                          then [''ether_payload''] else []))"
    by (simp add: run_body_issues init_fields split: option.splits sum.splits)
  have ok: "\<And>h. fst (compute_packet_hash E ?p0) = Inr h \<Longrightarrow>
      packet_hash (snd (run_body E ?p0)) = Some h"
    using run_body_no_ether(3) [of E ?p0] run_body_ether(3) [of E ?p0]
    by (cases "ether_layer ?p0") auto
  have bad: "\<And>e. fst (compute_packet_hash E ?p0) = Inl e \<Longrightarrow>
      packet_hash (snd (run_body E ?p0)) = None \<and> pipeline (snd (run_body E ?p0)) = []"
    using run_body_no_hash(2,3) [of E ?p0] by (simp add: init_fields)
  show ?thesis
    unfolding Let_def run_final
    using ok bad by (simp add: iss comp_def opt_val_def)
qed

theorem issue_set_members_witness:
  "fst (compute_packet_hash failing_hash_env
         (PacketProcessor_init example_worker packet_no_ether)) = Inl (Error ''TypeError'') \<and>
   pipeline (snd (PacketProcessor_run failing_hash_env
         (PacketProcessor_init example_worker packet_no_ether))) =
     [SADD ''unhandled:pkts:first_layer'' PNone,
      HSET ''heartbeats'' [(PStr ''susan'', PTime 5)]]"
proof -
  have h: "fst (compute_packet_hash failing_hash_env
         (PacketProcessor_init example_worker packet_no_ether)) = Inl (Error ''TypeError'')"
    by (simp add: compute_packet_hash_def packet_hash_bytes_def init_fields fixture_defs)
  show ?thesis
    using issue_set_members [where E = failing_hash_env and w = example_worker
        and pkt = packet_no_ether]
    by (auto simp add: Let_def h fixture_fields opt_val_def)
qed

section \<open>The fingerprint\<close>

text \<open>
  C3, as the code has it.  A packet without an Ethernet layer gets the anomaly
  \<open>first_layer\<close>.  For a packet with one, the code looks through the whole layer
  chain of the re-dissected copy, not only at what the Ethernet layer carries directly:
  when the chain holds neither an IPv4 nor an ARP layer the packet gets the anomaly
  \<open>ether_payload\<close>; when it holds an ARP layer and no IPv4 layer it gets no anomaly.
  In all three cases the bytes that are hashed are \<^verbatim>\<open>packet.original\<close> as it is,
  in whatever state the processor is.
\<close>

theorem anomaly_tagging:
  "let p' = snd (PacketProcessor_run E (PacketProcessor_init w pkt)) in
   (getlayer_Ether (layers pkt) = None \<longrightarrow>
      issue_categories p' = [''unhandled:pkts:first_layer''] \<and>
      (\<forall>p. packet p = pkt \<longrightarrow>
         fst (packet_hash_bytes E p) = Inr (original pkt) \<and>
         fst (compute_packet_hash E p) = blake2s_hexdigest E (original pkt))) \<and>
   (\<forall>eth c. getlayer_Ether (layers pkt) = Some eth \<and>
      Ether_dissect E (original pkt) = Inr c \<and> getlayer_IP c = None \<and> \<not> haslayer_ARP c \<longrightarrow>
      issue_categories p' = [''unhandled:pkts:ether_payload''] \<and>
      (\<forall>p. packet p = pkt \<longrightarrow>
         fst (packet_hash_bytes E p) = Inr (original pkt) \<and>
         fst (compute_packet_hash E p) = blake2s_hexdigest E (original pkt))) \<and>
   (\<forall>eth c. getlayer_Ether (layers pkt) = Some eth \<and>
      Ether_dissect E (original pkt) = Inr c \<and> getlayer_IP c = None \<and> haslayer_ARP c \<longrightarrow>
      issue_categories p' = [] \<and>
      (\<forall>p. packet p = pkt \<longrightarrow>
         fst (packet_hash_bytes E p) = Inr (original pkt) \<and>
         fst (compute_packet_hash E p) = blake2s_hexdigest E (original pkt)))"
proof -
  have a: "\<And>p. packet p = pkt \<Longrightarrow> getlayer_Ether (layers pkt) = None \<Longrightarrow>
      fst (packet_hash_bytes E p) = Inr (original pkt) \<and>
      fst (compute_packet_hash E p) = blake2s_hexdigest E (original pkt)"
    using packet_hash_bytes_no_ether compute_packet_hash_bytes
    by (simp add: ether_layer_def)
  have b: "\<And>p eth c. packet p = pkt \<Longrightarrow> getlayer_Ether (layers pkt) = Some eth \<Longrightarrow>
      Ether_dissect E (original pkt) = Inr c \<Longrightarrow> getlayer_IP c = None \<Longrightarrow>
      fst (packet_hash_bytes E p) = Inr (original pkt) \<and>
      fst (compute_packet_hash E p) = blake2s_hexdigest E (original pkt)"
    using packet_hash_bytes_no_ip compute_packet_hash_bytes
    by (simp add: ether_layer_def)
  show ?thesis
    unfolding Let_def run_final_issues
    using a b by auto
qed

theorem anomaly_tagging_witness:
  "issue_categories (snd (PacketProcessor_run example_env
       (PacketProcessor_init example_worker packet_no_ether))) = [''unhandled:pkts:first_layer''] \<and>
   fst (packet_hash_bytes example_env (PacketProcessor_init example_worker packet_no_ether)) =
     Inr [1, 2, 3] \<and>
   issue_categories (snd (PacketProcessor_run example_env
       (PacketProcessor_init example_worker packet_other))) = [''unhandled:pkts:ether_payload''] \<and>
   fst (packet_hash_bytes example_env (PacketProcessor_init example_worker packet_other)) =
     Inr [8, 1, 2] \<and>
   issue_categories (snd (PacketProcessor_run example_env
       (PacketProcessor_init example_worker packet_arp))) = [] \<and>
   fst (packet_hash_bytes example_env (PacketProcessor_init example_worker packet_arp)) =
     Inr [6, 1, 2]"
proof -
  have n: "getlayer_Ether (layers packet_no_ether) = None"
    by (simp add: fixture_fields)
  have o: "getlayer_Ether (layers packet_other) = Some example_ether \<and>
      Ether_dissect example_env (original packet_other) = Inr [Ether example_ether, Raw [8, 1, 2]] \<and>
      getlayer_IP [Ether example_ether, Raw [8, 1, 2]] = None \<and>
      \<not> haslayer_ARP [Ether example_ether, Raw [8, 1, 2]]"
    by (simp add: packet_other_def example_env_def toy_dissect_def)
  have r: "getlayer_Ether (layers packet_arp) = Some example_ether \<and>
      Ether_dissect example_env (original packet_arp) = Inr [Ether example_ether, ARP [1, 2]] \<and>
      getlayer_IP [Ether example_ether, ARP [1, 2]] = None \<and>
      haslayer_ARP [Ether example_ether, ARP [1, 2]]"
    by (simp add: packet_arp_def example_env_def toy_dissect_def)
  have og: "original packet_no_ether = [1, 2, 3]" "original packet_other = [8, 1, 2]"
    "original packet_arp = [6, 1, 2]"
    by (simp_all add: fixture_defs)
  show ?thesis
    using n o r
      anomaly_tagging [where E = example_env and w = example_worker and pkt = packet_no_ether]
      anomaly_tagging [where E = example_env and w = example_worker and pkt = packet_other]
      anomaly_tagging [where E = example_env and w = example_worker and pkt = packet_arp]
    unfolding Let_def
    by (metis og init_fields(2))
qed

text \<open>
  C3 as stated fails: in an 802.1Q-tagged IPv4 frame the Ethernet layer carries the tag,
  which is neither IPv4 nor ARP, yet \<^verbatim>\<open>getlayer(IP)\<close> finds the IPv4 layer behind
  it, so no anomaly is recorded and the bytes that are hashed are the rewritten copy, not
  \<^verbatim>\<open>packet.original\<close>.
\<close>

theorem vlan_payload_counterexample:
  "getlayer_Ether (layers packet_vlan_ipv4) = Some example_ether \<and>
   Ether_dissect example_env (original packet_vlan_ipv4) =
     Inr [Ether example_ether, Dot1Q [129],
          IP \<lparr>ip_id = 1, ip_chksum = 2, ip_other = [9, 9]\<rparr>] \<and>
   issue_categories (snd (PacketProcessor_run example_env
       (PacketProcessor_init example_worker packet_vlan_ipv4))) = [] \<and>
   fst (packet_hash_bytes example_env (PacketProcessor_init example_worker packet_vlan_ipv4)) \<noteq>
     Inr (original packet_vlan_ipv4)"
proof -
  have e: "getlayer_Ether (layers packet_vlan_ipv4) = Some example_ether"
    by (simp add: packet_vlan_ipv4_def toy_dissect_def)
  have d: "Ether_dissect example_env (original packet_vlan_ipv4) =
     Inr [Ether example_ether, Dot1Q [129],
          IP \<lparr>ip_id = 1, ip_chksum = 2, ip_other = [9, 9]\<rparr>]"
    by (simp add: packet_vlan_ipv4_def example_env_def toy_dissect_def)
  have i: "issue_categories (snd (PacketProcessor_run example_env
       (PacketProcessor_init example_worker packet_vlan_ipv4))) = []"
    by (simp add: run_final_issues e d)
  have el: "ether_layer (PacketProcessor_init example_worker packet_vlan_ipv4) = Some example_ether"
    by (simp add: init_fields e)
  have o: "original packet_vlan_ipv4 = [129, 4, 1, 2, 9, 9]"
    by (simp add: packet_vlan_ipv4_def)
  have b: "fst (packet_hash_bytes example_env
        (PacketProcessor_init example_worker packet_vlan_ipv4)) \<noteq> Inr [129, 4, 1, 2, 9, 9]"
    using packet_hash_bytes_ip [OF el, of example_env
        "[Ether example_ether, Dot1Q [129], IP \<lparr>ip_id = 1, ip_chksum = 2, ip_other = [9, 9]\<rparr>]"
        "\<lparr>ip_id = 1, ip_chksum = 2, ip_other = [9, 9]\<rparr>"] d
    by (simp add: init_fields example_env_def toy_build_def)
  show ?thesis
    using e d i b o by simp
qed



text \<open>
  C5, as the code has it.  The fingerprint depends on the packet alone, not on anything
  else in the processor, and computing it again on the state it left gives the same
  result.  Computing it leaves the pipeline, the worker (and so the store) and the
  packet as they were.  It is not free of side effects: the one attribute it changes
  is the list of anomaly categories, to which \<^verbatim>\<open>_packet_hash_bytes\<close> appends
  \<open>unhandled:pkts:ether_payload\<close> when the packet has an Ethernet layer and the copy
  holds neither an IPv4 nor an ARP layer.
\<close>

theorem fingerprint_effects:
  "let p' = snd (compute_packet_hash E p) in
   (packet q = packet p \<longrightarrow> fst (compute_packet_hash E q) = fst (compute_packet_hash E p)) \<and>
   fst (compute_packet_hash E p') = fst (compute_packet_hash E p) \<and>
   pipeline p' = pipeline p \<and> worker p' = worker p \<and> packet p' = packet p \<and>
   p' = p\<lparr>issue_categories := issue_categories p'\<rparr> \<and>
   issue_categories p' =
     issue_categories p @
       (case ether_layer p of
          None \<Rightarrow> []
        | Some eth \<Rightarrow>
            (case Ether_dissect E (original (packet p)) of
               Inl e \<Rightarrow> []
             | Inr c \<Rightarrow> if getlayer_IP c = None \<and> \<not> haslayer_ARP c
                        then [''unhandled:pkts:ether_payload''] else []))"
  unfolding Let_def
  using compute_packet_hash_fst [of q p E] compute_packet_hash_again [of E p]
  by (simp add: compute_packet_hash_snd packet_hash_bytes_state)

theorem fingerprint_effects_witness:
  "packet ((PacketProcessor_init example_worker packet_other)\<lparr>pipeline := [SADD ''macs'' PNone]\<rparr>) =
     packet (PacketProcessor_init example_worker packet_other) \<and>
   fst (compute_packet_hash example_env
          ((PacketProcessor_init example_worker packet_other)\<lparr>pipeline := [SADD ''macs'' PNone]\<rparr>)) =
   fst (compute_packet_hash example_env (PacketProcessor_init example_worker packet_other)) \<and>
   issue_categories (snd (compute_packet_hash example_env
          (PacketProcessor_init example_worker packet_other))) = [''unhandled:pkts:ether_payload'']"
proof -
  have h: "packet ((PacketProcessor_init example_worker packet_other)\<lparr>pipeline := [SADD ''macs'' PNone]\<rparr>) =
     packet (PacketProcessor_init example_worker packet_other)"
    by simp
  have d: "ether_layer (PacketProcessor_init example_worker packet_other) = Some example_ether"
    "Ether_dissect example_env (original (packet (PacketProcessor_init example_worker packet_other)))
       = Inr [Ether example_ether, Raw [8, 1, 2]]"
    by (simp_all add: init_fields packet_other_def example_env_def toy_dissect_def)
  show ?thesis
    using h fingerprint_effects [where E = example_env
        and p = "PacketProcessor_init example_worker packet_other"
        and q = "(PacketProcessor_init example_worker packet_other)\<lparr>pipeline := [SADD ''macs'' PNone]\<rparr>"]
    unfolding Let_def d
    by (simp add: init_fields)
qed

text \<open>
  C5 as stated fails: fingerprinting an Ethernet frame whose payload is neither IPv4 nor
  ARP changes the processor.
\<close>

theorem fingerprint_side_effect_counterexample:
  "snd (compute_packet_hash example_env (PacketProcessor_init example_worker packet_other)) \<noteq>
   PacketProcessor_init example_worker packet_other"
proof
  assume "snd (compute_packet_hash example_env (PacketProcessor_init example_worker packet_other)) =
   PacketProcessor_init example_worker packet_other"
  then have "issue_categories (snd (compute_packet_hash example_env
      (PacketProcessor_init example_worker packet_other))) = []"
    by (simp add: init_fields)
  then show False
    by (simp add: compute_packet_hash_snd packet_hash_bytes_state init_fields
        packet_other_def example_env_def toy_dissect_def)
qed


section \<open>Set-expiry\<close>

text \<open>
  C7, as the code has it.  \<^verbatim>\<open>PacketProcessor\<close> itself never appends a set-expiry.
  For a packet with an Ethernet layer whose fingerprint was computed, the batch is the
  three writes of the raw-packet record, the four writes of the device sighting, then
  whatever the worker's \<^verbatim>\<open>process_packet\<close> appended, then the anomaly operations and
  the heartbeat; so the set-expiry operations of the batch are exactly those the callback
  appended, and they lie after the device writes and before the heartbeat.  For a packet
  without an Ethernet layer, or whose fingerprint could not be computed, the callback is
  not called and the batch holds no set-expiry.
\<close>

theorem expiry_only_from_callback:
  "let p0 = PacketProcessor_init w pkt;
       p' = snd (PacketProcessor_run E p0);
       cf = [(PStr ''last_seen'', PTime (time pkt)),
             (PStr ''last_seen_by'', PStr (name w)),
             (PStr (''last_seen_by_'' @ name w), PTime (time pkt))]
   in (getlayer_Ether (layers pkt) = None \<longrightarrow> filter is_EXPIRE (pipeline p') = []) \<and>
      (\<forall>e. fst (compute_packet_hash E p0) = Inl e \<longrightarrow> filter is_EXPIRE (pipeline p') = []) \<and>
      (\<forall>h eth. fst (compute_packet_hash E p0) = Inr h \<and>
         getlayer_Ether (layers pkt) = Some eth \<longrightarrow>
         (let m = lower (src eth);
              ext = fst (process_packet E
                \<lparr>arg_packet = pkt, arg_common_fields = cf, arg_macaddr = Some m,
                 arg_mac_key = ''mac_'' @ m, arg_packet_hash = Some h,
                 arg_packet_key = ''pkt_'' @ h\<rparr>)
          in pipeline p' =
               [HSET (''pkt_'' @ h)
                  (cf @ [(PStr ''raw_bytes'', PBytes (original pkt)),
                         (PStr ''last_sniffed_on'', PStr (sniffed_on pkt)),
                         (PStr ''last_seen_from'', PStr m)]),
                HSETNX (''pkt_'' @ h) ''first_seen'' (PTime (time pkt)),
                HINCRBY (''pkt_'' @ h) ''num_sightings'' 1,
                SADD ''macs'' (PStr m),
                HSET (''mac_'' @ m) cf,
                HSETNX (''mac_'' @ m) ''first_seen'' (PTime (time pkt)),
                HSET (''macpkts_'' @ m) [(PStr h, PTime (time pkt))]] @
               ext @
               map (\<lambda>c. SADD c (PStr h)) (issue_categories p') @
               [HSET ''heartbeats'' [(PStr (name w), PTime (time pkt))]] \<and>
             filter is_EXPIRE (pipeline p') = filter is_EXPIRE ext))"
proof -
  let ?p0 = "PacketProcessor_init w pkt"
  let ?p' = "snd (PacketProcessor_run E ?p0)"
  have a: "\<And>e. fst (compute_packet_hash E ?p0) = Inl e \<Longrightarrow> filter is_EXPIRE (pipeline ?p') = []"
    by (simp add: run_batch_no_hash filter_EXPIRE_SADD)
  have b: "getlayer_Ether (layers pkt) = None \<Longrightarrow> filter is_EXPIRE (pipeline ?p') = []"
  proof (cases "fst (compute_packet_hash E ?p0)")
    case (Inl e)
    then show ?thesis by (rule a)
  next
    case (Inr h)
    assume "getlayer_Ether (layers pkt) = None"
    then show ?thesis by (simp add: run_batch_no_ether [OF Inr])
  qed
  have c: "\<And>h eth. fst (compute_packet_hash E ?p0) = Inr h \<Longrightarrow>
      getlayer_Ether (layers pkt) = Some eth \<Longrightarrow>
      filter is_EXPIRE (pipeline ?p') = filter is_EXPIRE (fst (process_packet E
       \<lparr>arg_packet = pkt,
        arg_common_fields =
          [(PStr ''last_seen'', PTime (time pkt)),
           (PStr ''last_seen_by'', PStr (name w)),
           (PStr (''last_seen_by_'' @ name w), PTime (time pkt))],
        arg_macaddr = Some (lower (src eth)), arg_mac_key = ''mac_'' @ lower (src eth),
        arg_packet_hash = Some h, arg_packet_key = ''pkt_'' @ h\<rparr>))"
    by (subst run_batch_ether, assumption, assumption) (simp add: filter_EXPIRE_SADD)
  show ?thesis
    unfolding Let_def
    using a b c run_batch_ether [of E w pkt] by auto
qed

theorem expiry_only_from_callback_witness:
  "fst (compute_packet_hash example_env (PacketProcessor_init example_worker (packet_ipv4 1 2))) =
     Inr ''0ff99'' \<and>
   getlayer_Ether (layers (packet_ipv4 1 2)) = Some example_ether \<and>
   filter is_EXPIRE (pipeline (snd (PacketProcessor_run example_env
       (PacketProcessor_init example_worker (packet_ipv4 1 2))))) = [EXPIRE ''pkt_0ff99'' 2419200]"
proof -
  have h: "fst (compute_packet_hash example_env
         (PacketProcessor_init example_worker (packet_ipv4 1 2))) = Inr ''0ff99''"
    by (simp add: compute_packet_hash_def packet_hash_bytes_def init_fields fixture_defs Let_def)
  have x: "filter is_EXPIRE (fst (process_packet example_env a)) = [EXPIRE (arg_packet_key a) 2419200]"
    for a
    by (simp add: example_env_def)
  show ?thesis
    using h fixture_fields(6) [of 1 2]
      expiry_only_from_callback [where E = example_env and w = example_worker
        and pkt = "packet_ipv4 1 2"]
    unfolding Let_def
    by (auto simp add: x)
qed

text \<open>
  C7 as stated fails: for a packet without an Ethernet layer the batch holds no
  set-expiry, even with a worker whose callback would append one.
\<close>

theorem expiry_counterexample:
  "filter is_EXPIRE (pipeline (snd (PacketProcessor_run example_env
       (PacketProcessor_init example_worker packet_no_ether)))) = []"
proof -
  have h: "fst (compute_packet_hash example_env
         (PacketProcessor_init example_worker packet_no_ether)) = Inr ''000''"
    by (simp add: compute_packet_hash_def packet_hash_bytes_def init_fields fixture_defs)
  show ?thesis
    by (simp add: run_batch_no_ether [OF h fixture_fields(5)])
qed

section \<open>First seen, last seen, sightings\<close>





section \<open>Restart and failure isolation\<close>

text \<open>
  C4.  A SIGHUP that finds \<^verbatim>\<open>_waiting_to_restart\<close> clear sets it and returns, so the
  capture goes on with the remaining events.  A SIGHUP that finds it set raises
  \<^verbatim>\<open>RestartWorker\<close> from the handler, which ends the capture.  The checkpoint after a
  packet, whether processing it returned or raised, raises \<^verbatim>\<open>RestartWorker\<close> when the
  flag is set at that moment and never when it is clear.
\<close>

theorem restart_state_machine:
  "(\<not> waiting_to_restart w \<longrightarrow>
      handle_SIGHUP w =
        (Inr (), w\<lparr>logged := logged w @ [''received SIGHUP, will restart at next checkpoint''],
                   waiting_to_restart := True\<rparr>) \<and>
      sniff prn (SIGHUP # evs) w =
        sniff prn evs
          (w\<lparr>logged := logged w @ [''received SIGHUP, will restart at next checkpoint''],
             waiting_to_restart := True\<rparr>)) \<and>
   (waiting_to_restart w \<longrightarrow>
      fst (handle_SIGHUP w) = Inl RestartWorker \<and>
      fst (sniff prn (SIGHUP # evs) w) = Inl RestartWorker) \<and>
   (waiting_to_restart (snd (process w)) \<longrightarrow>
      fst (wrapped_process_packet process w) = Inl RestartWorker) \<and>
   (\<not> waiting_to_restart (snd (process w)) \<longrightarrow>
      fst (wrapped_process_packet process w) =
        (case fst (process w) of Inl e \<Rightarrow> Inr None | Inr v \<Rightarrow> Inr (Some v))) \<and>
   (fst (checkpoint_worker w) = Inl RestartWorker \<longleftrightarrow> waiting_to_restart w)"
  by (auto simp add: handle_SIGHUP_clear handle_SIGHUP_set wrapped_set wrapped_clear
      checkpoint_worker_def split: sum.splits)

theorem restart_state_machine_witness:
  "\<not> waiting_to_restart example_worker \<and>
   fst (handle_SIGHUP example_worker) = Inr () \<and>
   waiting_to_restart (snd (handle_SIGHUP example_worker)) \<and>
   fst (handle_SIGHUP (snd (handle_SIGHUP example_worker))) = Inl RestartWorker \<and>
   fst (wrapped_process_packet (process_packet_method example_env packet_no_ether)
          (snd (handle_SIGHUP example_worker))) = Inl RestartWorker \<and>
   fst (wrapped_process_packet (process_packet_method example_env packet_no_ether)
          example_worker) \<noteq> Inl RestartWorker"
proof -
  have c: "\<not> waiting_to_restart example_worker"
    by (simp add: example_worker_def)
  let ?w1 = "example_worker\<lparr>logged := logged example_worker @
      [''received SIGHUP, will restart at next checkpoint''], waiting_to_restart := True\<rparr>"
  have s: "waiting_to_restart ?w1" by simp
  have m: "waiting_to_restart (snd (process_packet_method example_env packet_no_ether ?w1))"
    "\<not> waiting_to_restart (snd (process_packet_method example_env packet_no_ether example_worker))"
    using c by (simp_all add: method_waiting)
  show ?thesis
    using c s m
      restart_state_machine [where w = example_worker
        and process = "process_packet_method example_env packet_no_ether"
        and prn = "\<lambda>pkt. wrapped_process_packet (process_packet_method example_env pkt)"
        and evs = "[]"]
      restart_state_machine [where w = ?w1
        and process = "process_packet_method example_env packet_no_ether"
        and prn = "\<lambda>pkt. wrapped_process_packet (process_packet_method example_env pkt)"
        and evs = "[]"]
    by (auto split: sum.splits)
qed

text \<open>
  C8.  Nothing but \<^verbatim>\<open>RestartWorker\<close> leaves \<^verbatim>\<open>_wrapped_process_packet\<close>, and only
  from the checkpoint, that is with the flag set.  Whatever exception the processing of
  a packet raises (a failing callback, a store that refuses the batch) is logged and
  swallowed; with the flag clear the wrapper then returns \<^verbatim>\<open>None\<close> and the capture
  goes on with the next event.
\<close>

theorem failure_isolation:
  "(fst (wrapped_process_packet (proc pkt) w) = Inl x \<longrightarrow>
      x = RestartWorker \<and> waiting_to_restart (snd (proc pkt w))) \<and>
   (fst (proc pkt w) = Inl e \<longrightarrow>
      ''packet processing failed:'' \<in> set (logged (snd (wrapped_process_packet (proc pkt) w)))) \<and>
   (fst (proc pkt w) = Inl e \<and> \<not> waiting_to_restart (snd (proc pkt w)) \<longrightarrow>
      wrapped_process_packet (proc pkt) w =
        (Inr None,
         (snd (proc pkt w))\<lparr>logged := logged (snd (proc pkt w)) @ [''packet processing failed:'']\<rparr>) \<and>
      sniff (\<lambda>p. wrapped_process_packet (proc p)) (Captured pkt # evs) w =
        sniff (\<lambda>p. wrapped_process_packet (proc p)) evs
          ((snd (proc pkt w))\<lparr>logged := logged (snd (proc pkt w)) @ [''packet processing failed:'']\<rparr>))"
proof (cases "waiting_to_restart (snd (proc pkt w))")
  case True
  then show ?thesis by (auto simp add: wrapped_set)
next
  case False
  then show ?thesis by (auto simp add: wrapped_clear split: sum.splits)
qed

theorem failure_isolation_witness:
  "fst (process_packet_method failing_store_env (packet_ipv4 1 2) example_worker) =
     Inl (Error ''ConnectionError'') \<and>
   \<not> waiting_to_restart (snd (process_packet_method failing_store_env (packet_ipv4 1 2)
        example_worker)) \<and>
   fst (wrapped_process_packet (process_packet_method failing_store_env (packet_ipv4 1 2))
         example_worker) = Inr None \<and>
   ''packet processing failed:'' \<in> set (logged (snd (wrapped_process_packet
         (process_packet_method failing_store_env (packet_ipv4 1 2)) example_worker)))"
proof -
  have f: "fst (process_packet_method failing_store_env (packet_ipv4 1 2) example_worker) =
     Inl (Error ''ConnectionError'')"
    by (simp add: process_packet_method_eq run_outcome failing_store_env_def)
  have c: "\<not> waiting_to_restart (snd (process_packet_method failing_store_env (packet_ipv4 1 2)
        example_worker))"
    by (simp add: method_waiting example_worker_def)
  show ?thesis
    using f c failure_isolation [where proc = "process_packet_method failing_store_env"
        and pkt = "packet_ipv4 1 2" and w = example_worker and e = "Error ''ConnectionError''"]
    by simp
qed

text \<open>
  C9.  When \<^verbatim>\<open>run\<close> of a packet sniffer ends by raising \<^verbatim>\<open>RestartWorker\<close>,
  \<^verbatim>\<open>Worker.main\<close> flushes stdout, flushes stderr and calls \<^verbatim>\<open>os.execv\<close> with the
  executable and the list \<^verbatim>\<open>[sys.executable] + sys.argv\<close> that \<^verbatim>\<open>Worker.run\<close> stored,
  whatever happened during the capture.  When \<^verbatim>\<open>run\<close> returns or raises anything
  else, of this class or any other, nothing is flushed or executed and the outcome is
  passed on.
\<close>

theorem restart_reexec:
  "let run = PacketSnifferWorker_run E ps WORKER_NAME WANTED_PACKETS interfaces evs;
       result = Worker_main run w
   in (fst (run w) = Inl RestartWorker \<longrightarrow>
         fst result = Inr () \<and>
         snd (snd result) =
           [Flush_stdout, Flush_stderr,
            Execv (sys_executable ps) ([sys_executable ps] @ sys_argv ps)]) \<and>
      (fst (run w) \<noteq> Inl RestartWorker \<longrightarrow>
         fst result = map_sum id (\<lambda>_. ()) (fst (run w)) \<and> snd (snd result) = []) \<and>
      (fst (other_run w) \<noteq> Inl RestartWorker \<longrightarrow> snd (snd (Worker_main other_run w)) = [])"
  unfolding Let_def
  using main_restart [of "PacketSnifferWorker_run E ps WORKER_NAME WANTED_PACKETS interfaces evs" w
      "sys_executable ps" "sys_argv ps"]
    main_other [of "PacketSnifferWorker_run E ps WORKER_NAME WANTED_PACKETS interfaces evs" w]
    main_other [of other_run w]
  by (simp add: sniffer_run_cmd)

theorem restart_reexec_witness:
  "fst (PacketSnifferWorker_run example_env example_process ''Susan'' ''port 53'' ''wlx0023cafebabe''
          [SIGHUP, Captured packet_no_ether] example_worker) = Inl RestartWorker \<and>
   snd (snd (Worker_main
      (PacketSnifferWorker_run example_env example_process ''Susan'' ''port 53'' ''wlx0023cafebabe''
          [SIGHUP, Captured packet_no_ether]) example_worker)) =
     [Flush_stdout, Flush_stderr,
      Execv ''/usr/bin/python3'' [''/usr/bin/python3'', ''-m'', ''nx.workers.susan'']] \<and>
   fst (PacketSnifferWorker_run example_env example_process ''Susan'' ''port 53'' ''wlx0023cafebabe''
          [Captured packet_no_ether] example_worker) \<noteq> Inl RestartWorker \<and>
   snd (snd (Worker_main
      (PacketSnifferWorker_run example_env example_process ''Susan'' ''port 53'' ''wlx0023cafebabe''
          [Captured packet_no_ether]) example_worker)) = []"
proof -
  have a: "fst (PacketSnifferWorker_run example_env example_process ''Susan'' ''port 53''
          ''wlx0023cafebabe'' [SIGHUP, Captured packet_no_ether] example_worker) = Inl RestartWorker"
    by (simp add: PacketSnifferWorker_run_def Worker_run_def Let_def handle_SIGHUP_clear
        wrapped_set method_waiting)
  have b: "fst (PacketSnifferWorker_run example_env example_process ''Susan'' ''port 53''
          ''wlx0023cafebabe'' [Captured packet_no_ether] example_worker) \<noteq> Inl RestartWorker"
    by (simp add: PacketSnifferWorker_run_def Worker_run_def Let_def
        wrapped_clear method_waiting split: sum.splits)
  show ?thesis
    using a b
      restart_reexec [where E = example_env and ps = example_process and WORKER_NAME = "''Susan''"
        and WANTED_PACKETS = "''port 53''" and interfaces = "''wlx0023cafebabe''"
        and evs = "[SIGHUP, Captured packet_no_ether]" and w = example_worker
        and other_run = "process_packet_method example_env packet_no_ether"]
      restart_reexec [where E = example_env and ps = example_process and WORKER_NAME = "''Susan''"
        and WANTED_PACKETS = "''port 53''" and interfaces = "''wlx0023cafebabe''"
        and evs = "[Captured packet_no_ether]" and w = example_worker
        and other_run = "process_packet_method example_env packet_no_ether"]
    unfolding Let_def
    by (simp add: example_process_def)
qed

end
